theory Spec2Isabelle
  imports
    Main
    "HOL-Library.Char_ord"
    "HOL-Library.List_Lexorder"
    "HOL-Library.Product_Lexorder"
    "HOL-Library.Sublist"
    "HOL-Library.Multiset"
begin

section \<open>The K-DIN monthly report dashboard (\<^verbatim>\<open>src/app.py\<close>)\<close>

text \<open>
  The script runs from top to bottom on every render. It builds a backend client from two
  secrets, asks the backend for the monthly rows of the chosen organisation type, derives
  the options of two multi-select controls from the rows, filters the rows by the user's
  selections, sums sessions and reports per organisation group, and charts the top N
  groups.

  Strings are byte lists holding the UTF-8 encoding of the Python strings. Python orders
  strings by code point, and the bytewise order of UTF-8 is the code point order, so the
  lexicographic order on \<^typ>\<open>string\<close> is the order the script sorts by.
\<close>

subsection \<open>Data model\<close>

text \<open>
  One row of the backend's answer (a JSON object, one line of the data frame). The type of
  the organisation group identifier is whatever the backend sends; the script only groups
  and orders by it, so it is a parameter with a linear order. The counts are Python
  integers. The three columns that identify an organisation group are shared by the rows,
  by the totals and by the chart's frame, so they form the base record.
\<close>

record 'i org_group =
  orgGroupId :: 'i
  orgGroupName :: string
  orgType :: string

record 'i row = "'i org_group" +
  month :: string
  unique_users :: int
  session_count :: int
  report_count :: int

text \<open>The argument of the remote procedure \<^verbatim>\<open>rpc_monthly_org_reports\<close>.\<close>

record payload =
  p_type :: "string option"
  p_months :: "string list option"
  p_orgs :: "string list option"

text \<open>
  What can stop the script: a missing key of a mapping (\<^verbatim>\<open>st.secrets[...]\<close>, the
  dictionary of type tokens), an exception of the client library's constructor, and an
  exception of the remote call. None of them is caught anywhere in the script.
\<close>

datatype error = KeyError string | ClientError string | RpcError string

subsection \<open>The literals of the script\<close>

text \<open>The three options of the type selector: "all", "PaAN" and "other than PaAN".\<close>

definition opt_all :: string where
  "opt_all = [CHR 0xEB, CHR 0xAA, CHR 0xA8, CHR 0xEB, CHR 0x91, CHR 0x90]"

definition opt_paan :: string where
  "opt_paan = ''PaAN''"

definition opt_not_paan :: string where
  "opt_not_paan = ''PaAN '' @ [CHR 0xEC, CHR 0x9D, CHR 0xB4, CHR 0xEC, CHR 0x99, CHR 0xB8]"

subsection \<open>The fetcher\<close>

text \<open>
  Python's \<^verbatim>\<open>x or None\<close> on an optional list: \<^verbatim>\<open>None\<close> and the empty list are
  both falsy.
\<close>

definition or_None :: "'a list option \<Rightarrow> 'a list option" where
  "or_None x = (case x of None \<Rightarrow> None | Some [] \<Rightarrow> None | Some (y # ys) \<Rightarrow> Some (y # ys))"

text \<open>
  The dictionary \<^verbatim>\<open>{"all": None, "PaAN": "PaAN", "other than PaAN": "NOT_PaAN"}\<close>
  subscripted with the type option: any other string raises \<^verbatim>\<open>KeyError\<close>.
\<close>

definition type_token :: "string \<Rightarrow> error + string option" where
  "type_token type_option =
     (if type_option = opt_all then Inr None
      else if type_option = opt_paan then Inr (Some ''PaAN'')
      else if type_option = opt_not_paan then Inr (Some ''NOT_PaAN'')
      else Inl (KeyError type_option))"

definition make_payload ::
  "string \<Rightarrow> string list option \<Rightarrow> string list option \<Rightarrow> error + payload" where
  "make_payload type_option months orgs =
     (case type_token type_option of
        Inl e \<Rightarrow> Inl e
      | Inr t \<Rightarrow> Inr \<lparr>p_type = t, p_months = or_None months, p_orgs = or_None orgs\<rparr>)"

text \<open>
  The sort key of \<^verbatim>\<open>df.sort_values(["month", "orgGroupName"])\<close>. pandas sorts on
  several columns with a stable lexicographic sort, which is what \<^const>\<open>sort_key\<close> on
  the pair is.
\<close>

definition fetch_key :: "'i row \<Rightarrow> string \<times> string" where
  "fetch_key r = (month r, orgGroupName r)"

text \<open>
  The frame built from the response: \<^verbatim>\<open>pd.DataFrame(res.data or [])\<close>, sorted when
  it has rows. \<^verbatim>\<open>res.data\<close> is \<^verbatim>\<open>None\<close> or a list of rows.
\<close>

definition frame_of :: "'i row list option \<Rightarrow> 'i row list" where
  "frame_of data =
     (let df = (case data of None \<Rightarrow> [] | Some rs \<Rightarrow> rs)
      in if df \<noteq> [] then sort_key fetch_key df else df)"

text \<open>
  The body of \<^verbatim>\<open>fetch_data\<close>. The remote call is a parameter: it answers a payload
  with an exception or with \<^verbatim>\<open>res.data\<close>. The second component is the list of
  payloads sent to the backend.
\<close>

definition fetch_data ::
  "(payload \<Rightarrow> error + 'i row list option) \<Rightarrow> string \<Rightarrow> string list option \<Rightarrow>
     string list option \<Rightarrow> (error + 'i row list) \<times> payload list" where
  "fetch_data rpc type_option months orgs =
     (case make_payload type_option months orgs of
        Inl e \<Rightarrow> (Inl e, [])
      | Inr p \<Rightarrow>
          (case rpc p of
             Inl e \<Rightarrow> (Inl e, [p])
           | Inr data \<Rightarrow> (Inr (frame_of data), [p])))"

subsection \<open>The memoising decorators\<close>

text \<open>
  \<^verbatim>\<open>@st.cache_data(ttl=300)\<close> keys the results of \<^verbatim>\<open>fetch_data\<close> by its three
  arguments. The model is free of time: the cache is the map of the entries the decorator
  holds and still regards as fresh when the call is made. A hit returns the stored frame
  and sends nothing to the backend; a miss runs the body.
\<close>

type_synonym 'i data_cache = "string \<times> string list option \<times> string list option \<rightharpoonup> 'i row list"

definition cached_fetch_data ::
  "'i data_cache \<Rightarrow> (payload \<Rightarrow> error + 'i row list option) \<Rightarrow> string \<Rightarrow>
     string list option \<Rightarrow> string list option \<Rightarrow> (error + 'i row list) \<times> payload list" where
  "cached_fetch_data cache rpc type_option months orgs =
     (case cache (type_option, months, orgs) of
        Some df \<Rightarrow> (Inr df, [])
      | None \<Rightarrow> fetch_data rpc type_option months orgs)"

text \<open>
  Modelled from the spec: the decorator \<^verbatim>\<open>st.cache_data\<close> itself, which belongs to
  the host library and is not in the repository; the script only sets \<^verbatim>\<open>ttl=300\<close>
  (line 40). Sections 4.2 and 9 of the specification describe it: a keyed cache, the key
  being the parameter tuple, that stores the value with the time it was stored, with a
  pure predicate that tells whether an entry is expired; an entry is checked for expiry
  when it is accessed and nothing else evicts it; a call within the window returns the
  stored result and does not call the backend, a call after the window does. Time is in
  seconds. A call that raises stores nothing.
\<close>

definition ttl :: int where
  "ttl = 300"

type_synonym 'i timed_cache =
  "string \<times> string list option \<times> string list option \<rightharpoonup> 'i row list \<times> int"

text \<open>An entry stored at \<open>stored\<close> is fresh for 300 seconds.\<close>

definition is_expired :: "int \<Rightarrow> int \<Rightarrow> bool" where
  "is_expired now stored \<longleftrightarrow> stored + ttl \<le> now"

text \<open>The entries that are fresh at a given time: the cache a call sees.\<close>

definition fresh_entries :: "int \<Rightarrow> 'i timed_cache \<Rightarrow> 'i data_cache" where
  "fresh_entries now cache =
     (\<lambda>k. case cache k of
             None \<Rightarrow> None
           | Some (df, stored) \<Rightarrow> if is_expired now stored then None else Some df)"

text \<open>
  The decorated \<^verbatim>\<open>fetch_data\<close>, called at time \<open>now\<close>: its answer, the payloads
  it sent, and the cache it leaves.
\<close>

definition memo_fetch_data ::
  "'i timed_cache \<Rightarrow> int \<Rightarrow> (payload \<Rightarrow> error + 'i row list option) \<Rightarrow> string \<Rightarrow>
     string list option \<Rightarrow> string list option \<Rightarrow>
     ((error + 'i row list) \<times> payload list) \<times> 'i timed_cache" where
  "memo_fetch_data cache now rpc type_opt months orgs =
     (case fresh_entries now cache (type_opt, months, orgs) of
        Some df \<Rightarrow> ((Inr df, []), cache)
      | None \<Rightarrow>
          (case fetch_data rpc type_opt months orgs of
             (Inr df, sent) \<Rightarrow> ((Inr df, sent), cache((type_opt, months, orgs) \<mapsto> (df, now)))
           | (Inl e, sent) \<Rightarrow> ((Inl e, sent), cache)))"

subsection \<open>The filter options and the multi-select controls\<close>

text \<open>
  \<^verbatim>\<open>Series.unique()\<close> keeps the values in the order of their first appearance. The
  scan carries the values seen so far.
\<close>

fun unique_from :: "'a list \<Rightarrow> 'a list \<Rightarrow> 'a list" where
  "unique_from seen [] = []"
| "unique_from seen (x # xs) =
     (if x \<in> set seen then unique_from seen xs else x # unique_from (x # seen) xs)"

definition unique :: "'a list \<Rightarrow> 'a list" where
  "unique xs = unique_from [] xs"

definition all_months :: "'i row list \<Rightarrow> string list" where
  "all_months df = sort (unique (map month df))"

definition all_orgs :: "'i row list \<Rightarrow> string list" where
  "all_orgs df = unique (map orgGroupName df)"

text \<open>
  \<^verbatim>\<open>st.multiselect(options=..., default=..., key=...)\<close>: the control returns its
  default until the user has touched it, and the user's selection from then on. The
  third argument is the state kept under the control's key: \<open>None\<close> while untouched.
\<close>

definition multiselect :: "string list \<Rightarrow> string list \<Rightarrow> string list option \<Rightarrow> string list" where
  "multiselect options dflt state = (case state of None \<Rightarrow> dflt | Some sel \<Rightarrow> sel)"

subsection \<open>The row filter\<close>

text \<open>
  Lines 83 to 87. Each of the two restrictions is applied only when its selection is a
  non-empty list (\<^verbatim>\<open>if selected_months:\<close>).
\<close>

definition filtered :: "'i row list \<Rightarrow> string list \<Rightarrow> string list \<Rightarrow> 'i row list" where
  "filtered df selected_months selected_orgs =
     (let f0 = df;
          f1 = (if selected_months \<noteq> [] then filter (\<lambda>r. month r \<in> set selected_months) f0 else f0);
          f2 = (if selected_orgs \<noteq> [] then filter (\<lambda>r. orgGroupName r \<in> set selected_orgs) f1 else f1)
      in f2)"

subsection \<open>The aggregator\<close>

text \<open>The two sums are added to the group's three columns.\<close>

record 'i total = "'i org_group" +
  total_sessions :: int
  total_reports :: int

definition group_key :: "('i, 'z) org_group_scheme \<Rightarrow> 'i \<times> string \<times> string" where
  "group_key r = (orgGroupId r, orgGroupName r, orgType r)"

text \<open>
  \<^verbatim>\<open>groupby([...], as_index=False)\<close> makes one group for each distinct key and, with
  its default \<^verbatim>\<open>sort=True\<close>, lists the groups in ascending order of the key.
\<close>

definition group_keys :: "('i::linorder) row list \<Rightarrow> ('i \<times> string \<times> string) list" where
  "group_keys rows = sort (remdups (map group_key rows))"

definition group_rows :: "'i row list \<Rightarrow> 'i \<times> string \<times> string \<Rightarrow> 'i row list" where
  "group_rows rows k = filter (\<lambda>r. group_key r = k) rows"

definition agg_group :: "'i row list \<Rightarrow> 'i \<times> string \<times> string \<Rightarrow> 'i total" where
  "agg_group rows k =
     \<lparr>orgGroupId = fst k, orgGroupName = fst (snd k), orgType = snd (snd k),
      total_sessions = sum_list (map session_count (group_rows rows k)),
      total_reports = sum_list (map report_count (group_rows rows k))\<rparr>"

definition groupby_agg :: "('i::linorder) row list \<Rightarrow> 'i total list" where
  "groupby_agg rows = map (agg_group rows) (group_keys rows)"


definition sort_values_desc :: "(int list \<Rightarrow> nat list) \<Rightarrow> ('a \<Rightarrow> int) \<Rightarrow> 'a list \<Rightarrow> 'a list" where
  "sort_values_desc argsort_desc col df = map (\<lambda>i. df ! i) (argsort_desc (map col df))"

text \<open>Lines 102 to 108.\<close>

definition totals :: "(int list \<Rightarrow> nat list) \<Rightarrow> ('i::linorder) row list \<Rightarrow> 'i total list" where
  "totals argsort_desc rows = sort_values_desc argsort_desc total_reports (groupby_agg rows)"

text \<open>
  Two routines that meet \<open>indexer_ok\<close>: one keeps equal values in the order of their
  positions (a stable sort), the other lists equal values from the last position to the
  first.
\<close>

definition stable_argsort_desc :: "int list \<Rightarrow> nat list" where
  "stable_argsort_desc col = sort_key (\<lambda>i. - (col ! i)) [0..<length col]"


subsection \<open>The chart\<close>

text \<open>
  Line 113: the first \<open>top_n\<close> totals, with the organisation's name copied into the
  column \<^verbatim>\<open>label\<close>.
\<close>

record 'i plot_row = "'i total" +
  label :: string

definition assign_label :: "'i total \<Rightarrow> 'i plot_row" where
  "assign_label t =
     \<lparr>orgGroupId = orgGroupId t, orgGroupName = orgGroupName t, orgType = orgType t,
      total_sessions = total_sessions t, total_reports = total_reports t,
      label = orgGroupName t\<rparr>"

definition plot_df :: "nat \<Rightarrow> 'i total list \<Rightarrow> 'i plot_row list" where
  "plot_df top_n tots = map assign_label (take top_n tots)"

text \<open>Line 115: the chart's frame sorted once more, and its labels in that order.\<close>

definition org_order :: "(int list \<Rightarrow> nat list) \<Rightarrow> 'i plot_row list \<Rightarrow> string list" where
  "org_order argsort_desc pdf = map label (sort_values_desc argsort_desc total_reports pdf)"

text \<open>
  Lines 117 to 128: \<^verbatim>\<open>melt\<close> stacks the reports of all rows over the sessions of all
  rows; each line is (label, metric, value, metric label).
\<close>

definition plot_long :: "'i plot_row list \<Rightarrow> (string \<times> string \<times> int \<times> string) list" where
  "plot_long pdf =
     map (\<lambda>r. (label r, ''total_reports'', total_reports r, ''Reports'')) pdf @
     map (\<lambda>r. (label r, ''total_sessions'', total_sessions r, ''Sessions'')) pdf"

text \<open>The chart: its data and the order given to the x axis (\<^verbatim>\<open>sort=org_order\<close>).\<close>

record chart =
  chart_data :: "(string \<times> string \<times> int \<times> string) list"
  x_sort :: "string list"

definition make_chart :: "(int list \<Rightarrow> nat list) \<Rightarrow> 'i plot_row list \<Rightarrow> chart" where
  "make_chart argsort_desc pdf = \<lparr>chart_data = plot_long pdf, x_sort = org_order argsort_desc pdf\<rparr>"

subsection \<open>The script\<close>

text \<open>
  The three messages of the script. Line 56, shown when the fetch has no rows: "There are
  no results. Try other conditions." Line 91, shown when the filter leaves no rows: "The
  filter has no results. Adjust the selection of months or organisations." Line 100:
  "There is no data to aggregate."
\<close>

definition msg_no_results :: string where
  "msg_no_results =
     [CHR 0xEC, CHR 0xA1, CHR 0xB0, CHR 0xED, CHR 0x9A, CHR 0x8C, CHR 0x20, CHR 0xEA,
      CHR 0xB2, CHR 0xB0, CHR 0xEA, CHR 0xB3, CHR 0xBC, CHR 0xEA, CHR 0xB0, CHR 0x80,
      CHR 0x20, CHR 0xEC, CHR 0x97, CHR 0x86, CHR 0xEC, CHR 0x8A, CHR 0xB5, CHR 0xEB,
      CHR 0x8B, CHR 0x88, CHR 0xEB, CHR 0x8B, CHR 0xA4, CHR 0x2E, CHR 0x20, CHR 0xEC,
      CHR 0xA1, CHR 0xB0, CHR 0xEA, CHR 0xB1, CHR 0xB4, CHR 0xEC, CHR 0x9D, CHR 0x84,
      CHR 0x20, CHR 0xEB, CHR 0xB0, CHR 0x94, CHR 0xEA, CHR 0xBF, CHR 0x94, CHR 0xEB,
      CHR 0xB3, CHR 0xB4, CHR 0xEC, CHR 0x84, CHR 0xB8, CHR 0xEC, CHR 0x9A, CHR 0x94,
      CHR 0x2E]"

definition msg_no_filter_match :: string where
  "msg_no_filter_match =
     [CHR 0xED, CHR 0x95, CHR 0x84, CHR 0xED, CHR 0x84, CHR 0xB0, CHR 0x20, CHR 0xEA,
      CHR 0xB2, CHR 0xB0, CHR 0xEA, CHR 0xB3, CHR 0xBC, CHR 0xEA, CHR 0xB0, CHR 0x80,
      CHR 0x20, CHR 0xEC, CHR 0x97, CHR 0x86, CHR 0xEC, CHR 0x8A, CHR 0xB5, CHR 0xEB,
      CHR 0x8B, CHR 0x88, CHR 0xEB, CHR 0x8B, CHR 0xA4, CHR 0x2E, CHR 0x20, CHR 0xEC,
      CHR 0x9B, CHR 0x94, CHR 0x20, CHR 0xEB, CHR 0x98, CHR 0x90, CHR 0xEB, CHR 0x8A,
      CHR 0x94, CHR 0x20, CHR 0xEC, CHR 0xA1, CHR 0xB0, CHR 0xEC, CHR 0xA7, CHR 0x81,
      CHR 0x20, CHR 0xEC, CHR 0x84, CHR 0xA0, CHR 0xED, CHR 0x83, CHR 0x9D, CHR 0xEC,
      CHR 0x9D, CHR 0x84, CHR 0x20, CHR 0xEC, CHR 0xA1, CHR 0xB0, CHR 0xEC, CHR 0xA0,
      CHR 0x95, CHR 0xED, CHR 0x95, CHR 0xB4, CHR 0x20, CHR 0xEC, CHR 0xA3, CHR 0xBC,
      CHR 0xEC, CHR 0x84, CHR 0xB8, CHR 0xEC, CHR 0x9A, CHR 0x94, CHR 0x2E]"

definition msg_nothing_to_aggregate :: string where
  "msg_nothing_to_aggregate =
     [CHR 0xEC, CHR 0xA7, CHR 0x91, CHR 0xEA, CHR 0xB3, CHR 0x84, CHR 0xED, CHR 0x95,
      CHR 0xA0, CHR 0x20, CHR 0xEB, CHR 0x8D, CHR 0xB0, CHR 0xEC, CHR 0x9D, CHR 0xB4,
      CHR 0xED, CHR 0x84, CHR 0xB0, CHR 0xEA, CHR 0xB0, CHR 0x80, CHR 0x20, CHR 0xEC,
      CHR 0x97, CHR 0x86, CHR 0xEC, CHR 0x8A, CHR 0xB5, CHR 0xEB, CHR 0x8B, CHR 0x88,
      CHR 0xEB, CHR 0x8B, CHR 0xA4, CHR 0x2E]"

text \<open>
  Modelled from the spec: the constructor \<^verbatim>\<open>create_client\<close> of the backend's client
  library, which is not in the repository. Section 6 of the specification makes the
  absence of either secret fatal at the start, and the library does so: it raises
  ("supabase_url is required", "supabase_key is required") when the URL or the key it is
  given is \<^verbatim>\<open>None\<close> or empty, before it builds the client. What else the library
  checks of the two strings (their format) is the parameter \<open>validate\<close>, which
  answers the exception it raises, if any.
\<close>

record client =
  supabase_url :: string
  supabase_key :: string

definition create_client ::
  "(string \<Rightarrow> string \<Rightarrow> error option) \<Rightarrow> string \<Rightarrow> string option \<Rightarrow> error + client" where
  "create_client validate url k =
     (if url = [] then Inl (ClientError ''supabase_url is required'')
      else case k of
             None \<Rightarrow> Inl (ClientError ''supabase_key is required'')
           | Some s \<Rightarrow>
               if s = [] then Inl (ClientError ''supabase_key is required'')
               else (case validate url s of
                       Some err \<Rightarrow> Inl err
                     | None \<Rightarrow> Inr \<lparr>supabase_url = url, supabase_key = s\<rparr>))"

text \<open>
  What surrounds the script: the secret store, the client library's validation of the
  two secrets, the remote procedure called through a client, what the two memoising
  decorators hold when the script starts, and the sorting routine of the data frame
  library. \<^verbatim>\<open>@st.cache_resource\<close> holds the client once \<^verbatim>\<open>init_supabase\<close> has
  returned one; at the start of the process it holds nothing.
\<close>

record 'i env =
  secrets :: "string \<rightharpoonup> string"
  validate_client :: "string \<Rightarrow> string \<Rightarrow> error option"
  rpc_execute :: "client \<Rightarrow> payload \<Rightarrow> error + 'i row list option"
  resource_cache :: "client option"
  data_cache :: "'i data_cache"
  argsort_desc :: "int list \<Rightarrow> nat list"

text \<open>
  The state of the controls: the slider's value, the chosen type option, and the state of
  the two multi-select controls (\<open>None\<close> while the user has not touched the control).
\<close>

record controls =
  top_n :: nat
  type_option :: string
  month_filter :: "string list option"
  org_filter :: "string list option"

text \<open>Python's \<^verbatim>\<open>a or b\<close> on two optional strings: \<^verbatim>\<open>a\<close> when it is truthy.\<close>

definition py_or :: "string option \<Rightarrow> string option \<Rightarrow> string option" where
  "py_or a b = (case a of None \<Rightarrow> b | Some s \<Rightarrow> if s \<noteq> [] then Some s else b)"

text \<open>
  Lines 7 to 16. \<^verbatim>\<open>st.secrets["SUPABASE_URL"]\<close> raises when the secret is missing;
  \<^verbatim>\<open>st.secrets.get\<close> answers \<^verbatim>\<open>None\<close> instead.
\<close>

definition init_supabase :: "'i env \<Rightarrow> error + client" where
  "init_supabase e =
     (case resource_cache e of
        Some client \<Rightarrow> Inr client
      | None \<Rightarrow>
          (case secrets e ''SUPABASE_URL'' of
             None \<Rightarrow> Inl (KeyError ''SUPABASE_URL'')
           | Some url \<Rightarrow>
               create_client (validate_client e) url
                 (py_or (secrets e ''SUPABASE_SECRET_KEY'') (secrets e ''SUPABASE_PUB_KEY''))))"

text \<open>
  What a render puts on the page, in the order of the calls. The table of line 93 shows
  the six columns of \<^verbatim>\<open>display_cols\<close>; the expander of line 151 echoes the type
  option and the two selections.
\<close>

definition display_cols :: "'i row \<Rightarrow> string \<times> string \<times> string \<times> int \<times> int \<times> int" where
  "display_cols r =
     (month r, orgGroupName r, orgType r, unique_users r, session_count r, report_count r)"

datatype 'i ui =
    PageConfig | Title | Divider | Slider | Subheader | Selectbox | Markdown
  | Multiselect "string list" "string list"
  | Info string
  | Warning string
  | Table "(string \<times> string \<times> string \<times> int \<times> int \<times> int) list"
  | TotalsTable "'i total list"
  | AltairChart chart
  | Expander string "string list" "string list"

text \<open>
  How a render ends: the script ran to its last line, \<^verbatim>\<open>st.stop()\<close> ended it, or
  an exception did.
\<close>

datatype ending = Finished | Stopped | Raised error

record 'i outcome =
  shown :: "'i ui list"
  calls :: "payload list"
  ending :: ending

text \<open>Lines 18 to 31: what is on the page when the fetcher is called.\<close>

definition page_head :: "'i ui list" where
  "page_head = [PageConfig, Title, Divider, Slider, Subheader, Selectbox]"

text \<open>Lines 59 to 153: the page below the type selector, for a frame that has rows.\<close>

definition page_body ::
  "(int list \<Rightarrow> nat list) \<Rightarrow> controls \<Rightarrow> ('i::linorder) row list \<Rightarrow> 'i ui list" where
  "page_body srt w df =
     (let months = all_months df;
          orgs = all_orgs df;
          selected_months = multiselect months months (month_filter w);
          selected_orgs = multiselect orgs orgs (org_filter w);
          rows = filtered df selected_months selected_orgs
      in [Markdown, Multiselect months months, Markdown, Multiselect orgs orgs,
          Divider, Subheader] @
         (if rows = [] then [Warning msg_no_filter_match]
          else [Table (map display_cols rows)]) @
         [Divider, Subheader] @
         (if rows = [] then [Info msg_nothing_to_aggregate]
          else (let tots = totals srt rows;
                    pdf = plot_df (top_n w) tots
                in [Markdown, TotalsTable tots, Markdown, AltairChart (make_chart srt pdf)])) @
         [Expander (type_option w) selected_months selected_orgs])"

text \<open>The whole script, line 16 to line 153.\<close>

definition render :: "('i::linorder) env \<Rightarrow> controls \<Rightarrow> 'i outcome" where
  "render e w =
     (case init_supabase e of
        Inl err \<Rightarrow> \<lparr>shown = [], calls = [], ending = Raised err\<rparr>
      | Inr client \<Rightarrow>
          (case cached_fetch_data (data_cache e) (rpc_execute e client) (type_option w) None None of
             (Inl err, sent) \<Rightarrow> \<lparr>shown = page_head, calls = sent, ending = Raised err\<rparr>
           | (Inr df, sent) \<Rightarrow>
               if df = [] then
                 \<lparr>shown = page_head @ [Info msg_no_results], calls = sent, ending = Stopped\<rparr>
               else
                 \<lparr>shown = page_head @ page_body (argsort_desc e) w df, calls = sent,
                  ending = Finished\<rparr>))"


subsection \<open>Example inputs\<close>

text \<open>
  The rows of the specification's scenario (organisation A with 10 reports and 5 sessions,
  organisation B with 30 reports and 8 sessions, both in January 2024), with a second
  month of A; and two organisations whose report totals tie.
\<close>

definition ex_row :: "string \<Rightarrow> int \<Rightarrow> string \<Rightarrow> int \<Rightarrow> int \<Rightarrow> int row" where
  "ex_row m i n s r =
     \<lparr>orgGroupId = i, orgGroupName = n, orgType = ''PaAN'', month = m,
      unique_users = 1, session_count = s, report_count = r\<rparr>"

definition ex_df :: "int row list" where
  "ex_df = [ex_row ''2024-01'' 1 ''A'' 5 10, ex_row ''2024-01'' 2 ''B'' 8 30,
            ex_row ''2024-02'' 1 ''A'' 2 4]"



text \<open>
  An environment: both secrets set and accepted by the client library, a backend that
  answers every call with the given data, empty caches, and the stable sorting routine.
\<close>

definition ex_env :: "int row list option \<Rightarrow> int env" where
  "ex_env data =
     \<lparr>secrets = [''SUPABASE_URL'' \<mapsto> ''https://db.example'', ''SUPABASE_PUB_KEY'' \<mapsto> ''pk''],
      validate_client = (\<lambda>url k. None),
      rpc_execute = (\<lambda>client p. Inr data),
      resource_cache = None,
      data_cache = Map.empty,
      argsort_desc = stable_argsort_desc\<rparr>"

definition ex_controls :: controls where
  "ex_controls = \<lparr>top_n = 25, type_option = opt_all, month_filter = None, org_filter = None\<rparr>"

text \<open>The cache after a first fetch of all organisation types at time 1000.\<close>

definition ex_cache1 :: "int timed_cache" where
  "ex_cache1 = Map.empty((opt_all, None, None) \<mapsto> (ex_df, 1000))"

section \<open>Properties\<close>

subsection \<open>The row filter\<close>

lemma filtered_subseq: "subseq (filtered df ms os) df"
  unfolding filtered_def Let_def
  by (auto intro: subseq_order.trans[OF subseq_filter_left subseq_filter_left])

lemma filtered_eq:
  "filtered df ms os =
     filter (\<lambda>r. (ms = [] \<or> month r \<in> set ms) \<and> (os = [] \<or> orgGroupName r \<in> set os)) df"
  unfolding filtered_def Let_def by (auto intro: filter_cong)

text \<open>
  Claim C1, as stated, fails where a selection is empty: with no month selected and
  organisation B selected, the filter returns B's row of January 2024, whose month is not
  a member of the empty selection.
\<close>

theorem filtered_selected_counterexample:
  "filtered ex_df [] [''B''] = [ex_row ''2024-01'' 2 ''B'' 8 30] \<and>
   month (ex_row ''2024-01'' 2 ''B'' 8 30) \<notin> set ([] :: string list)"
  by (simp add: filtered_def ex_df_def ex_row_def)

text \<open>
  Claim C1, amended: for every fetched row set and every pair of selections, the row
  filter returns a subset of the fetched rows (in their order) in which every row's month
  is a member of the selected months when that selection is not empty, and every row's
  organisation name is a member of the selected organisations when that selection is not
  empty. An empty selection restricts nothing: the result is exactly the fetched rows
  that pass each non-empty selection, so with both selections empty it is the whole
  fetched set.
\<close>

theorem filtered_selected:
  "subseq (filtered df ms os) df \<and>
   (\<forall>r \<in> set (filtered df ms os).
      (ms \<noteq> [] \<longrightarrow> month r \<in> set ms) \<and> (os \<noteq> [] \<longrightarrow> orgGroupName r \<in> set os)) \<and>
   filtered df ms os =
     filter (\<lambda>r. (ms = [] \<or> month r \<in> set ms) \<and> (os = [] \<or> orgGroupName r \<in> set os)) df \<and>
   filtered df [] os = filter (\<lambda>r. os = [] \<or> orgGroupName r \<in> set os) df \<and>
   filtered df ms [] = filter (\<lambda>r. ms = [] \<or> month r \<in> set ms) df \<and>
   filtered df [] [] = df"
proof -
  have a: "subseq (filtered df ms os) df" by (rule filtered_subseq)
  have b: "\<forall>r \<in> set (filtered df ms os).
      (ms \<noteq> [] \<longrightarrow> month r \<in> set ms) \<and> (os \<noteq> [] \<longrightarrow> orgGroupName r \<in> set os)"
    unfolding filtered_eq by auto
  have c: "filtered df [] os = filter (\<lambda>r. os = [] \<or> orgGroupName r \<in> set os) df"
    unfolding filtered_eq by simp
  have d: "filtered df ms [] = filter (\<lambda>r. ms = [] \<or> month r \<in> set ms) df"
    unfolding filtered_eq by simp
  have e: "filtered df [] [] = df"
    unfolding filtered_eq by simp
  from a b c d e filtered_eq[of df ms os] show ?thesis by blast
qed

theorem filtered_selected_witness:
  "filtered ex_df [''2024-01''] [''A''] = [ex_row ''2024-01'' 1 ''A'' 5 10] \<and>
   subseq (filtered ex_df [''2024-01''] [''A'']) ex_df \<and>
   list_all (\<lambda>r. month r \<in> set [''2024-01''] \<and> orgGroupName r \<in> set [''A''])
     (filtered ex_df [''2024-01''] [''A'']) \<and>
   filtered ex_df [] [] = ex_df"
proof -
  note t = filtered_selected[of ex_df "[''2024-01'']" "[''A'']"]
  have a: "filtered ex_df [''2024-01''] [''A''] = [ex_row ''2024-01'' 1 ''A'' 5 10]"
    by (simp add: filtered_def ex_df_def ex_row_def)
  have b: "subseq (filtered ex_df [''2024-01''] [''A'']) ex_df"
    using t by blast
  have "\<forall>r \<in> set (filtered ex_df [''2024-01''] [''A'']).
          month r \<in> set [''2024-01''] \<and> orgGroupName r \<in> set [''A'']"
    using t by blast
  then have c: "list_all (\<lambda>r. month r \<in> set [''2024-01''] \<and> orgGroupName r \<in> set [''A''])
     (filtered ex_df [''2024-01''] [''A''])"
    by (simp only: list_all_iff)
  have d: "filtered ex_df [] [] = ex_df"
    using t by blast
  from a b c d show ?thesis by blast
qed

subsection \<open>The filter options\<close>

lemma unique_from_set: "set (unique_from seen xs) = set xs - set seen"
  by (induction xs arbitrary: seen) auto

lemma unique_from_distinct: "distinct (unique_from seen xs)"
  by (induction xs arbitrary: seen) (auto simp: unique_from_set)

lemma unique_from_subseq: "subseq (unique_from seen xs) xs"
  by (induction xs arbitrary: seen) auto

lemma unique_from_takeWhile:
  "x \<notin> set seen \<Longrightarrow>
   takeWhile (\<lambda>y. y \<noteq> x) (unique_from seen xs) = unique_from seen (takeWhile (\<lambda>y. y \<noteq> x) xs)"
  by (induction xs arbitrary: seen) auto

lemma unique_set: "set (unique xs) = set xs"
  by (simp add: unique_def unique_from_set)

lemma unique_distinct: "distinct (unique xs)"
  by (simp add: unique_def unique_from_distinct)

lemma unique_subseq: "subseq (unique xs) xs"
  by (simp add: unique_def unique_from_subseq)

lemma unique_takeWhile:
  "takeWhile (\<lambda>y. y \<noteq> x) (unique xs) = unique (takeWhile (\<lambda>y. y \<noteq> x) xs)"
  by (simp add: unique_def unique_from_takeWhile)

lemma all_months_set: "set (all_months df) = month ` set df"
  by (simp add: all_months_def unique_set)

lemma all_orgs_set: "set (all_orgs df) = orgGroupName ` set df"
  by (simp add: all_orgs_def unique_set)

lemma all_orgs_first_seen:
  "takeWhile (\<lambda>n. n \<noteq> x) (all_orgs df) = all_orgs (takeWhile (\<lambda>r. orgGroupName r \<noteq> x) df)"
  by (simp add: all_orgs_def unique_takeWhile takeWhile_map comp_def)

text \<open>
  Claim C8: from any fetched row set, the month options are the distinct months present,
  sorted ascending; the organisation options are the distinct organisation names present,
  in first-seen order (a subsequence of the name column without repetition, in which the
  names listed before a name \<open>x\<close> are the options of the rows that precede the first
  row of \<open>x\<close>); and an untouched multi-select control returns all of its options.
\<close>

theorem filter_options:
  "sorted (all_months df) \<and> distinct (all_months df) \<and> set (all_months df) = month ` set df \<and>
   distinct (all_orgs df) \<and> set (all_orgs df) = orgGroupName ` set df \<and>
   subseq (all_orgs df) (map orgGroupName df) \<and>
   takeWhile (\<lambda>n. n \<noteq> x) (all_orgs df) = all_orgs (takeWhile (\<lambda>r. orgGroupName r \<noteq> x) df) \<and>
   multiselect (all_months df) (all_months df) None = all_months df \<and>
   multiselect (all_orgs df) (all_orgs df) None = all_orgs df"
  by (simp add: all_months_def all_orgs_first_seen unique_distinct unique_set multiselect_def)
     (simp add: all_orgs_def unique_distinct unique_set unique_subseq)

theorem filter_options_witness:
  "all_months (rev ex_df) = [''2024-01'', ''2024-02''] \<and> all_orgs ex_df = [''A'', ''B''] \<and>
   all_orgs (rev ex_df) = [''A'', ''B''] \<and> sorted (all_months (rev ex_df)) \<and>
   multiselect (all_orgs ex_df) (all_orgs ex_df) None = [''A'', ''B'']"
  using filter_options[of "rev ex_df" "''A''"] filter_options[of ex_df "''A''"]
  by (simp add: all_months_def all_orgs_def unique_def ex_df_def ex_row_def multiselect_def)

subsection \<open>The fetcher\<close>

lemma frame_of_sorted: "sorted (map fetch_key (frame_of data))"
  by (simp add: frame_of_def Let_def split: option.splits)

lemma frame_of_mset: "mset (frame_of data) = mset (case data of None \<Rightarrow> [] | Some rs \<Rightarrow> rs)"
  by (simp add: frame_of_def Let_def split: option.splits)

lemma sorted_fetch_key:
  "sorted (map fetch_key df) \<Longrightarrow>
   sorted_wrt (\<lambda>a b. month a < month b \<or> (month a = month b \<and> orgGroupName a \<le> orgGroupName b)) df"
  by (induction df) (auto simp: fetch_key_def less_eq_prod_def)

text \<open>
  Claim C6: for every backend response (a call that returns, whatever its data), the
  fetcher returns the response's rows rearranged so that months ascend and, within a
  month, organisation names ascend; it returns no rows when the backend's data is null or
  an empty list. One payload is sent.
\<close>

theorem fetch_data_sorted:
  assumes "make_payload t ms os = Inr p" and "rpc p = Inr data"
  shows "\<exists>df. fetch_data rpc t ms os = (Inr df, [p]) \<and>
           sorted_wrt (\<lambda>a b. month a < month b \<or>
                              (month a = month b \<and> orgGroupName a \<le> orgGroupName b)) df \<and>
           mset df = mset (case data of None \<Rightarrow> [] | Some rs \<Rightarrow> rs) \<and>
           (data = None \<or> data = Some [] \<longrightarrow> df = [])"
  using assms sorted_fetch_key[OF frame_of_sorted, of data]
  by (auto simp: fetch_data_def frame_of_mset) (simp_all add: frame_of_def)

lemma make_payload_all:
  "make_payload opt_all None None = Inr \<lparr>p_type = None, p_months = None, p_orgs = None\<rparr>"
  by (simp add: make_payload_def type_token_def or_None_def)

theorem fetch_data_sorted_witness:
  "fetch_data (\<lambda>p. Inr (Some (rev ex_df))) opt_all None None =
     (Inr ex_df, [\<lparr>p_type = None, p_months = None, p_orgs = None\<rparr>]) \<and>
   fetch_data (\<lambda>p. Inr None) opt_all None None =
     (Inr ([] :: int row list), [\<lparr>p_type = None, p_months = None, p_orgs = None\<rparr>])"
  using fetch_data_sorted[OF make_payload_all, of "\<lambda>p. Inr (Some (rev ex_df))" "Some (rev ex_df)"]
    fetch_data_sorted[OF make_payload_all, of "\<lambda>p. Inr None" "None :: int row list option"]
  by (simp add: fetch_data_def make_payload_all frame_of_def fetch_key_def ex_df_def ex_row_def)

subsection \<open>The aggregator and the sorting routine\<close>
































subsection \<open>The totals\<close>










subsection \<open>The chart's selection\<close>







subsection \<open>The script as a whole\<close>

text \<open>The example environment, evaluated.\<close>

lemma ex_init:
  "init_supabase (ex_env d) = Inr \<lparr>supabase_url = ''https://db.example'', supabase_key = ''pk''\<rparr>"
  by (simp add: init_supabase_def ex_env_def py_or_def create_client_def)

lemma ex_fetch_all:
  "cached_fetch_data (data_cache (ex_env d)) (rpc_execute (ex_env d) c) opt_all None None =
     (Inr (frame_of d), [\<lparr>p_type = None, p_months = None, p_orgs = None\<rparr>])"
  by (simp add: cached_fetch_data_def fetch_data_def make_payload_all ex_env_def)

lemma ex_fetch:
  "type_option w = opt_all \<Longrightarrow>
   cached_fetch_data (data_cache (ex_env d)) (rpc_execute (ex_env d) c) (type_option w) None None =
     (Inr (frame_of d), [\<lparr>p_type = None, p_months = None, p_orgs = None\<rparr>])"
  by (simp add: ex_fetch_all)

lemma ex_frame: "frame_of (Some ex_df) = ex_df" "frame_of None = []"
  by (simp_all add: frame_of_def fetch_key_def ex_df_def ex_row_def)

lemma ex_controls_type [simp]:
  "type_option ex_controls = opt_all"
  by (simp add: ex_controls_def)

lemma ex_options: "all_months ex_df = [''2024-01'', ''2024-02'']" "all_orgs ex_df = [''A'', ''B'']"
  by (simp_all add: all_months_def all_orgs_def unique_def ex_df_def ex_row_def)

lemma make_payload_None:
  "make_payload t None None = Inr p \<Longrightarrow> p_months p = None \<and> p_orgs p = None"
  by (auto simp: make_payload_def or_None_def split: sum.splits)

lemma fetch_data_calls:
  "snd (fetch_data rpc t None None) = [] \<or>
   (\<exists>p. snd (fetch_data rpc t None None) = [p] \<and> p_months p = None \<and> p_orgs p = None)"
  using make_payload_None[of t]
  by (auto simp: fetch_data_def split: sum.splits)

lemma cached_fetch_data_calls:
  "snd (cached_fetch_data cache rpc t None None) = [] \<or>
   (\<exists>p. snd (cached_fetch_data cache rpc t None None) = [p] \<and> p_months p = None \<and> p_orgs p = None)"
  using fetch_data_calls[of rpc t]
  by (simp add: cached_fetch_data_def split: option.splits)

lemma render_calls:
  "calls (render e w) =
     (case init_supabase e of
        Inl err \<Rightarrow> []
      | Inr client \<Rightarrow>
          snd (cached_fetch_data (data_cache e) (rpc_execute e client) (type_option w) None None))"
  by (simp add: render_def split: sum.splits prod.splits)

text \<open>
  Claim C10: on every render the fetcher is called with no month list and no organisation
  list, so every payload sent to the backend has \<^verbatim>\<open>p_months\<close> and
  \<^verbatim>\<open>p_orgs\<close> null; at most one payload is sent; and the payloads are the same
  whatever the two multi-select controls hold: the months and the organisations are
  filtered on the client only.
\<close>

theorem payload_never_filters:
  "(\<forall>p \<in> set (calls (render e w)). p_months p = None \<and> p_orgs p = None) \<and>
   length (calls (render e w)) \<le> 1 \<and>
   calls (render e (w\<lparr>month_filter := ms, org_filter := os\<rparr>)) = calls (render e w)"
proof (cases "init_supabase e")
  case (Inl err)
  then show ?thesis by (simp add: render_calls)
next
  case (Inr client)
  then show ?thesis
    using cached_fetch_data_calls[of "data_cache e" "rpc_execute e client" "type_option w"]
    by (auto simp: render_calls)
qed

lemma render_no_client:
  "init_supabase e = Inl err \<Longrightarrow> render e w = \<lparr>shown = [], calls = [], ending = Raised err\<rparr>"
  by (simp add: render_def)

text \<open>
  Claim C9: at the start of the process (no client is held yet), if the backend URL is
  absent from the secret store, or the access key is absent under both of its names, the
  render ends with an exception and nothing has been put on the page or sent to the
  backend. For the URL the script's own subscript raises \<^verbatim>\<open>KeyError\<close>. For the key
  the script passes \<^verbatim>\<open>None\<close> to the client library's constructor, which raises.
\<close>

theorem missing_secret_aborts:
  assumes "resource_cache e = None"
    and "secrets e ''SUPABASE_URL'' = None \<or>
         (secrets e ''SUPABASE_SECRET_KEY'' = None \<and> secrets e ''SUPABASE_PUB_KEY'' = None)"
  shows "(\<exists>err. render e w = \<lparr>shown = [], calls = [], ending = Raised err\<rparr>) \<and>
         (secrets e ''SUPABASE_URL'' = None \<longrightarrow>
            render e w = \<lparr>shown = [], calls = [], ending = Raised (KeyError ''SUPABASE_URL'')\<rparr>)"
proof -
  have "\<exists>err. init_supabase e = Inl err"
    using assms
    by (auto simp: init_supabase_def py_or_def create_client_def split: option.splits)
  moreover have "secrets e ''SUPABASE_URL'' = None \<longrightarrow>
      init_supabase e = Inl (KeyError ''SUPABASE_URL'')"
    using assms(1) by (simp add: init_supabase_def)
  ultimately show ?thesis by (auto simp: render_no_client)
qed

lemma render_rows:
  assumes "init_supabase e = Inr client"
    and "cached_fetch_data (data_cache e) (rpc_execute e client) (type_option w) None None = (Inr df, sent)"
  shows "render e w =
     (if df = [] then \<lparr>shown = page_head @ [Info msg_no_results], calls = sent, ending = Stopped\<rparr>
      else \<lparr>shown = page_head @ page_body (argsort_desc e) w df, calls = sent, ending = Finished\<rparr>)"
  using assms by (simp add: render_def)

lemma messages_distinct: "msg_no_results \<noteq> msg_no_filter_match"
  by (simp add: msg_no_results_def msg_no_filter_match_def)

lemma page_head_plain:
  "Warning m \<notin> set page_head" "Info m \<notin> set page_head"
  by (simp_all add: page_head_def)

lemma page_body_warning:
  "Warning msg_no_filter_match \<in> set (page_body srt w df) \<longleftrightarrow>
     filtered df (multiselect (all_months df) (all_months df) (month_filter w))
                 (multiselect (all_orgs df) (all_orgs df) (org_filter w)) = []"
  by (simp add: page_body_def Let_def)

lemma page_body_no_results: "Info msg_no_results \<notin> set (page_body srt w df)"
  by (simp add: page_body_def Let_def msg_no_results_def msg_nothing_to_aggregate_def)

lemma filtered_no_months: "filtered df [] os = filtered df (all_months df) os"
  unfolding filtered_eq by (rule filter_cong) (auto simp: all_months_set)

lemma filtered_no_orgs: "filtered df ms [] = filtered df ms (all_orgs df)"
  unfolding filtered_eq by (rule filter_cong) (auto simp: all_orgs_set)

lemma filtered_all: "filtered df [] [] = df"
  by (simp add: filtered_def)

text \<open>
  Claim C2, amended: when the user deselects every month (or every organisation), the row
  filter does not restrict that dimension: its result is the one it has with every month
  (every organisation) selected, and with both selections empty it is the whole fetched
  set. The "no rows match the filter" warning is shown exactly when the fetch has rows and
  the filter leaves none. It differs from the "no results" message, which is shown, and
  the render stopped, when the fetch has no rows.
\<close>

theorem deselect_all_filter:
  assumes "init_supabase e = Inr client"
    and "cached_fetch_data (data_cache e) (rpc_execute e client) (type_option w) None None =
           (Inr df, sent)"
  shows "(df = [] \<longrightarrow> shown (render e w) = page_head @ [Info msg_no_results] \<and>
                      ending (render e w) = Stopped) \<and>
         (df \<noteq> [] \<longrightarrow>
            Info msg_no_results \<notin> set (shown (render e w)) \<and>
            (Warning msg_no_filter_match \<in> set (shown (render e w)) \<longleftrightarrow>
               filtered df (multiselect (all_months df) (all_months df) (month_filter w))
                           (multiselect (all_orgs df) (all_orgs df) (org_filter w)) = [])) \<and>
         filtered df [] os = filtered df (all_months df) os \<and>
         filtered df ms [] = filtered df ms (all_orgs df) \<and>
         filtered df [] [] = df \<and>
         msg_no_filter_match \<noteq> msg_no_results"
proof -
  have "df = [] \<longrightarrow> shown (render e w) = page_head @ [Info msg_no_results] \<and>
                      ending (render e w) = Stopped"
    by (simp add: render_rows[OF assms])
  moreover have "df \<noteq> [] \<longrightarrow>
            Info msg_no_results \<notin> set (shown (render e w)) \<and>
            (Warning msg_no_filter_match \<in> set (shown (render e w)) \<longleftrightarrow>
               filtered df (multiselect (all_months df) (all_months df) (month_filter w))
                           (multiselect (all_orgs df) (all_orgs df) (org_filter w)) = [])"
    by (simp add: render_rows[OF assms] page_body_warning page_body_no_results page_head_plain)
  ultimately show ?thesis
    using filtered_no_months[of df os] filtered_no_orgs[of df ms] filtered_all[of df]
      messages_distinct
    by (simp add: eq_commute[of msg_no_filter_match])
qed

text \<open>
  Claim C2, as stated, fails: with every month deselected and the organisations
  untouched, the filter returns all three example rows and the page carries no warning.
\<close>

theorem deselect_all_counterexample:
  "filtered ex_df (multiselect (all_months ex_df) (all_months ex_df) (Some []))
     (multiselect (all_orgs ex_df) (all_orgs ex_df) None) = ex_df \<and>
   ex_df \<noteq> [] \<and>
   Warning msg_no_filter_match \<notin>
     set (shown (render (ex_env (Some ex_df)) (ex_controls\<lparr>month_filter := Some []\<rparr>)))"
proof -
  let ?w = "ex_controls\<lparr>month_filter := Some []\<rparr>"
  have w: "type_option ?w = opt_all" by simp
  have f: "filtered ex_df (multiselect (all_months ex_df) (all_months ex_df) (Some []))
     (multiselect (all_orgs ex_df) (all_orgs ex_df) None) = ex_df"
    by (simp add: multiselect_def ex_options) (simp add: filtered_def ex_df_def ex_row_def)
  have ne: "ex_df \<noteq> []" by (simp add: ex_df_def)
  have "shown (render (ex_env (Some ex_df)) ?w) =
          page_head @ page_body (argsort_desc (ex_env (Some ex_df))) ?w ex_df"
    using render_rows[OF ex_init ex_fetch[OF w], of "Some ex_df"] ne by (simp add: ex_frame)
  then have "Warning msg_no_filter_match \<notin> set (shown (render (ex_env (Some ex_df)) ?w))"
    using f ne by (simp add: page_head_plain page_body_warning ex_controls_def)
  with f ne show ?thesis by simp
qed

theorem deselect_all_filter_witness:
  "Warning msg_no_filter_match \<in>
     set (shown (render (ex_env (Some ex_df))
       (ex_controls\<lparr>month_filter := Some [''2024-02''], org_filter := Some [''B'']\<rparr>))) \<and>
   shown (render (ex_env None) ex_controls) = page_head @ [Info msg_no_results] \<and>
   ending (render (ex_env None) ex_controls) = Stopped"
proof -
  let ?w = "ex_controls\<lparr>month_filter := Some [''2024-02''], org_filter := Some [''B'']\<rparr>"
  have w: "type_option ?w = opt_all" by simp
  have f: "filtered ex_df (multiselect (all_months ex_df) (all_months ex_df) (month_filter ?w))
     (multiselect (all_orgs ex_df) (all_orgs ex_df) (org_filter ?w)) = []"
    by (simp add: multiselect_def filtered_def ex_df_def ex_row_def)
  have ne: "ex_df \<noteq> []" by (simp add: ex_df_def)
  have "Warning msg_no_filter_match \<in> set (shown (render (ex_env (Some ex_df)) ?w))"
    using deselect_all_filter[OF ex_init ex_fetch[OF w], of "Some ex_df"] f ne by (simp add: ex_frame)
  moreover have "shown (render (ex_env None) ex_controls) = page_head @ [Info msg_no_results] \<and>
      ending (render (ex_env None) ex_controls) = Stopped"
    using deselect_all_filter[OF ex_init ex_fetch[OF ex_controls_type], of None] by (simp add: ex_frame)
  ultimately show ?thesis by simp
qed

theorem missing_secret_aborts_witness:
  "render ((ex_env None)\<lparr>secrets := Map.empty\<rparr>) ex_controls =
     \<lparr>shown = [], calls = [], ending = Raised (KeyError ''SUPABASE_URL'')\<rparr> \<and>
   render ((ex_env None)\<lparr>secrets := [''SUPABASE_URL'' \<mapsto> ''https://db.example'']\<rparr>) ex_controls =
     \<lparr>shown = [], calls = [], ending = Raised (ClientError ''supabase_key is required'')\<rparr>"
proof -
  let ?e1 = "(ex_env None)\<lparr>secrets := Map.empty\<rparr>"
  let ?e2 = "(ex_env None)\<lparr>secrets := [''SUPABASE_URL'' \<mapsto> ''https://db.example'']\<rparr>"
  have c1: "resource_cache ?e1 = None" and c2: "resource_cache ?e2 = None"
    by (simp_all add: ex_env_def)
  have h1: "secrets ?e1 ''SUPABASE_URL'' = None \<or>
         (secrets ?e1 ''SUPABASE_SECRET_KEY'' = None \<and> secrets ?e1 ''SUPABASE_PUB_KEY'' = None)"
    by simp
  have h2: "secrets ?e2 ''SUPABASE_URL'' = None \<or>
         (secrets ?e2 ''SUPABASE_SECRET_KEY'' = None \<and> secrets ?e2 ''SUPABASE_PUB_KEY'' = None)"
    by simp
  have a: "render ?e1 ex_controls =
      \<lparr>shown = [], calls = [], ending = Raised (KeyError ''SUPABASE_URL'')\<rparr>"
    using missing_secret_aborts[OF c1 h1, of ex_controls] by simp
  obtain err where b: "render ?e2 ex_controls = \<lparr>shown = [], calls = [], ending = Raised err\<rparr>"
    using missing_secret_aborts[OF c2 h2, of ex_controls] by blast
  have "init_supabase ?e2 = Inl (ClientError ''supabase_key is required'')"
    by (simp add: init_supabase_def ex_env_def py_or_def create_client_def)
  then have "ending (render ?e2 ex_controls) = Raised (ClientError ''supabase_key is required'')"
    by (simp add: render_no_client)
  with b have "err = ClientError ''supabase_key is required''" by simp
  with a b show ?thesis by simp
qed

theorem payload_never_filters_witness:
  "calls (render (ex_env (Some ex_df))
     (ex_controls\<lparr>month_filter := Some [''2024-02''], org_filter := Some [''B'']\<rparr>)) =
     [\<lparr>p_type = None, p_months = None, p_orgs = None\<rparr>] \<and>
   calls (render (ex_env (Some ex_df)) ex_controls) =
     [\<lparr>p_type = None, p_months = None, p_orgs = None\<rparr>]"
  using payload_never_filters[of "ex_env (Some ex_df)" ex_controls "Some [''2024-02'']" "Some [''B'']"]
  by (simp add: render_calls ex_init ex_fetch_all)

subsection \<open>The memoised fetcher\<close>

lemma memo_fetch_data_cached:
  "fst (memo_fetch_data cache now rpc t ms os) = cached_fetch_data (fresh_entries now cache) rpc t ms os"
  by (simp add: memo_fetch_data_def cached_fetch_data_def split: option.splits prod.splits sum.splits)

lemma fetch_data_sent:
  "fetch_data rpc t ms os = (Inr df, sent) \<Longrightarrow> make_payload t ms os = Inr p \<Longrightarrow> sent = [p]"
  by (auto simp: fetch_data_def split: sum.splits)

lemma fetch_data_sent_any:
  "make_payload t ms os = Inr p \<Longrightarrow> snd (fetch_data rpc t ms os) = [p]"
  by (auto simp: fetch_data_def split: sum.splits)

lemma memo_first:
  assumes "memo_fetch_data cache t1 rpc ty ms os = ((Inr df, p # sent), cache1)"
  shows "cache1 = cache((ty, ms, os) \<mapsto> (df, t1)) \<and> make_payload ty ms os = Inr p \<and> sent = []"
  using assms
  by (auto simp: memo_fetch_data_def fetch_data_def split: option.splits prod.splits sum.splits)

text \<open>
  Claim C7: when a call of the fetcher has reached the backend and returned a frame, a
  second call with the identical (type, months, orgs) tuple less than 300 seconds after
  it returns the same frame, sends nothing to the backend (whatever the backend would
  answer now) and leaves the cache as it is; a call 300 seconds after it or later sends
  the payload to the backend again and answers what the backend answers.
\<close>

theorem refetch_within_ttl:
  assumes "memo_fetch_data cache t1 rpc ty ms os = ((Inr df, [p]), cache1)"
  shows "(t2 < t1 + 300 \<longrightarrow>
            memo_fetch_data cache1 t2 rpc2 ty ms os = ((Inr df, []), cache1)) \<and>
         (t1 + 300 \<le> t2 \<longrightarrow>
            fst (fst (memo_fetch_data cache1 t2 rpc2 ty ms os)) = fst (fetch_data rpc2 ty ms os) \<and>
            snd (fst (memo_fetch_data cache1 t2 rpc2 ty ms os)) = [p])"
proof -
  from memo_first[OF assms]
  have c: "cache1 = cache((ty, ms, os) \<mapsto> (df, t1))" and mp: "make_payload ty ms os = Inr p"
    by simp_all
  have hit: "t2 < t1 + 300 \<longrightarrow> fresh_entries t2 cache1 (ty, ms, os) = Some df"
    by (simp add: c fresh_entries_def is_expired_def ttl_def)
  have miss: "t1 + 300 \<le> t2 \<longrightarrow> fresh_entries t2 cache1 (ty, ms, os) = None"
    by (simp add: c fresh_entries_def is_expired_def ttl_def)
  have a: "t2 < t1 + 300 \<longrightarrow>
            memo_fetch_data cache1 t2 rpc2 ty ms os = ((Inr df, []), cache1)"
    using hit by (simp add: memo_fetch_data_def)
  have b: "t1 + 300 \<le> t2 \<longrightarrow>
            fst (fst (memo_fetch_data cache1 t2 rpc2 ty ms os)) = fst (fetch_data rpc2 ty ms os) \<and>
            snd (fst (memo_fetch_data cache1 t2 rpc2 ty ms os)) = [p]"
    using miss fetch_data_sent_any[OF mp, of rpc2]
    by (auto simp: memo_fetch_data_def split: prod.splits sum.splits)
  from a b show ?thesis by blast
qed

theorem refetch_within_ttl_witness:
  "memo_fetch_data Map.empty 1000 (\<lambda>p. Inr (Some ex_df)) opt_all None None =
     ((Inr ex_df, [\<lparr>p_type = None, p_months = None, p_orgs = None\<rparr>]), ex_cache1) \<and>
   memo_fetch_data ex_cache1 1299 (\<lambda>p. Inl (RpcError ''down'')) opt_all None None =
     ((Inr ex_df, []), ex_cache1) \<and>
   snd (fst (memo_fetch_data ex_cache1 1300 (\<lambda>p. Inl (RpcError ''down'')) opt_all None None)) =
     [\<lparr>p_type = None, p_months = None, p_orgs = None\<rparr>] \<and>
   fst (fst (memo_fetch_data ex_cache1 1300 (\<lambda>p. Inl (RpcError ''down'')) opt_all None None)) =
     (Inl (RpcError ''down'') :: error + int row list)"
proof -
  let ?p = "\<lparr>p_type = None, p_months = None, p_orgs = None\<rparr>"
  let ?down = "(\<lambda>p. Inl (RpcError ''down'')) :: payload \<Rightarrow> error + int row list option"
  have fr: "frame_of (Some ex_df) = ex_df"
    by (simp add: frame_of_def fetch_key_def ex_df_def ex_row_def)
  have first: "memo_fetch_data Map.empty 1000 (\<lambda>p. Inr (Some ex_df)) opt_all None None =
     ((Inr ex_df, [?p]), ex_cache1)"
    by (simp add: memo_fetch_data_def fresh_entries_def fetch_data_def make_payload_all fr
        ex_cache1_def)
  note t = refetch_within_ttl[OF first]
  have a: "memo_fetch_data ex_cache1 1299 ?down opt_all None None = ((Inr ex_df, []), ex_cache1)"
    using t[of 1299 ?down] by simp
  have b: "fst (fst (memo_fetch_data ex_cache1 1300 ?down opt_all None None)) =
             fst (fetch_data ?down opt_all None None) \<and>
           snd (fst (memo_fetch_data ex_cache1 1300 ?down opt_all None None)) = [?p]"
    using t[of 1300 ?down] by simp
  have c: "fst (fetch_data ?down opt_all None None) = Inl (RpcError ''down'')"
    by (simp add: fetch_data_def make_payload_all)
  from first a b c show ?thesis by simp
qed

end
